theory Spec2Isabelle
  imports Main "HOL-Library.AList"
begin

section \<open>Values of the platform's property bags\<close>

text \<open>
  The property bag of a discovered device is an \<open>IMapView<string, any>\<close>. A value is a
  string, a number, a string array, or \<open>null\<close> or \<open>undefined\<close> (the platform gives
  \<open>null\<close> for a requested property that it has not filled in). A JavaScript string is a
  list of code units.
\<close>

datatype jsval = JStr string | JNum int | JArr "string list" | JNull | JUndefined

type_synonym properties = "string \<rightharpoonup> jsval"

text \<open>What a \<open>catch\<close> can receive: a \<open>TypeError\<close> of the language, or a failure of a
  platform call with its code.\<close>

datatype js_error = TypeError | Platform_error int

definition hasKey :: "properties \<Rightarrow> string \<Rightarrow> bool" where
  "hasKey props key = (props key \<noteq> None)"

definition lookup :: "properties \<Rightarrow> string \<Rightarrow> jsval" where
  "lookup props key = the (props key)"

text \<open>
  \<open>v.length > n\<close> as JavaScript evaluates it: arrays and strings have a length, a number
  has none (\<open>undefined > n\<close> is false), and reading \<open>length\<close> of \<open>null\<close> or
  \<open>undefined\<close> throws.
\<close>

fun length_gt :: "jsval \<Rightarrow> nat \<Rightarrow> js_error + bool" where
  "length_gt (JArr xs) n = Inr (n < length xs)"
| "length_gt (JStr s) n = Inr (n < length s)"
| "length_gt (JNum k) n = Inr False"
| "length_gt JNull n = Inl TypeError"
| "length_gt JUndefined n = Inl TypeError"

text \<open>
  \<open>v[i]\<close> for an index below the length: the entry of an array, the one-unit string of a
  string. The mapping only reads an index after the matching length test.
\<close>

fun elem :: "jsval \<Rightarrow> nat \<Rightarrow> string" where
  "elem (JArr xs) i = xs ! i"
| "elem (JStr s) i = [s ! i]"
| "elem (JNum k) i = []"
| "elem JNull i = []"
| "elem JUndefined i = []"

section \<open>The IPv4 pattern\<close>

text \<open>
  The regular-expression constructs that the literal
  \<^verbatim>\<open>/^((25[0-5]|(2[0-4]|1\d|[1-9]|)\d)\.?\b){4}$/\<close> uses. A matcher state is the input
  before the current position (reversed) and the input after it; \<open>rmatch\<close> returns every
  state a backtracking matcher can reach, in the order it tries them.
\<close>

datatype regex =
    Start
  | End
  | Word_boundary
  | Lit char
  | Range char char
  | Digit
  | Empty
  | Seq regex regex
  | Alt regex regex
  | Opt regex
  | Times nat regex

type_synonym mstate = "string \<times> string"

definition in_range :: "char \<Rightarrow> char \<Rightarrow> char \<Rightarrow> bool" where
  "in_range lo hi c = ((of_char lo :: nat) \<le> of_char c \<and> (of_char c :: nat) \<le> of_char hi)"

definition word_char :: "char \<Rightarrow> bool" where
  "word_char c = (in_range CHR ''a'' CHR ''z'' c \<or> in_range CHR ''A'' CHR ''Z'' c
     \<or> in_range CHR ''0'' CHR ''9'' c \<or> c = CHR ''_'')"

fun word_at :: "string \<Rightarrow> bool" where
  "word_at [] = False"
| "word_at (c # cs) = word_char c"

fun one_char :: "(char \<Rightarrow> bool) \<Rightarrow> mstate \<Rightarrow> mstate list" where
  "one_char ok (before, []) = []"
| "one_char ok (before, c # cs) = (if ok c then [(c # before, cs)] else [])"

primrec iter :: "nat \<Rightarrow> (mstate \<Rightarrow> mstate list) \<Rightarrow> mstate \<Rightarrow> mstate list" where
  "iter 0 f st = [st]"
| "iter (Suc n) f st = concat (map (iter n f) (f st))"

primrec rmatch :: "regex \<Rightarrow> mstate \<Rightarrow> mstate list" where
  "rmatch Start = (\<lambda>st. if fst st = [] then [st] else [])"
| "rmatch End = (\<lambda>st. if snd st = [] then [st] else [])"
| "rmatch Word_boundary = (\<lambda>st. if word_at (fst st) = word_at (snd st) then [] else [st])"
| "rmatch (Lit c) = one_char (\<lambda>x. x = c)"
| "rmatch (Range lo hi) = one_char (in_range lo hi)"
| "rmatch Digit = one_char (in_range CHR ''0'' CHR ''9'')"
| "rmatch Empty = (\<lambda>st. [st])"
| "rmatch (Seq r1 r2) = (\<lambda>st. concat (map (rmatch r2) (rmatch r1 st)))"
| "rmatch (Alt r1 r2) = (\<lambda>st. rmatch r1 st @ rmatch r2 st)"
| "rmatch (Opt r) = (\<lambda>st. rmatch r st @ [st])"
| "rmatch (Times n r) = iter n (rmatch r)"

text \<open>
  \<open>RegExp.prototype.test\<close> of a pattern without flags: a match may start at any index
  of the input.
\<close>

definition regex_test :: "regex \<Rightarrow> string \<Rightarrow> bool" where
  "regex_test re s =
     list_ex (\<lambda>i. rmatch re (rev (take i s), drop i s) \<noteq> []) [0..<Suc (length s)]"

definition octet :: regex where
  "octet = Alt (Seq (Lit CHR ''2'') (Seq (Lit CHR ''5'') (Range CHR ''0'' CHR ''5'')))
     (Seq (Alt (Seq (Lit CHR ''2'') (Range CHR ''0'' CHR ''4''))
            (Alt (Seq (Lit CHR ''1'') Digit)
              (Alt (Range CHR ''1'' CHR ''9'') Empty)))
        Digit)"

definition ipv4Pattern :: regex where
  "ipv4Pattern =
     Seq Start (Seq (Times 4 (Seq octet (Seq (Opt (Lit CHR ''.'')) Word_boundary))) End)"

section \<open>The service record and the property mapping\<close>

text \<open>
  \<open>Partial<IDnssdServiceInstance>\<close>: every field may be unset. The mapping stores the
  bag's values as they are, so a field holds a \<open>jsval\<close>.
\<close>

record IDnssdServiceInstance =
  hostName :: "jsval option"
  serviceName :: "jsval option"
  instanceName :: "jsval option"
  ipAddresses :: "jsval option"
  ipv4Address :: "jsval option"
  ipv6Address :: "jsval option"
  portNumber :: "jsval option"
  textAttributes :: "jsval option"

definition HOSTNAME_PROPERTY :: string where
  "HOSTNAME_PROPERTY = ''System.Devices.Dnssd.HostName''"

definition SERVICENAME_PROPERTY :: string where
  "SERVICENAME_PROPERTY = ''System.Devices.Dnssd.ServiceName''"

definition INSTANCENAME_PROPERTY :: string where
  "INSTANCENAME_PROPERTY = ''System.Devices.Dnssd.InstanceName''"

definition IPADDRESS_PROPERTY :: string where
  "IPADDRESS_PROPERTY = ''System.Devices.IpAddress''"

definition PORTNUMBER_PROPERTY :: string where
  "PORTNUMBER_PROPERTY = ''System.Devices.Dnssd.PortNumber''"

definition TEXTATTRIBUTES_PROPERTY :: string where
  "TEXTATTRIBUTES_PROPERTY = ''System.Devices.Dnssd.TextAttributes''"

definition propertyKeys :: "string list" where
  "propertyKeys = [HOSTNAME_PROPERTY, SERVICENAME_PROPERTY, INSTANCENAME_PROPERTY,
     IPADDRESS_PROPERTY, PORTNUMBER_PROPERTY, TEXTATTRIBUTES_PROPERTY]"

definition emptyServiceInfo :: IDnssdServiceInstance where
  "emptyServiceInfo = \<lparr>hostName = None, serviceName = None, instanceName = None,
     ipAddresses = None, ipv4Address = None, ipv6Address = None, portNumber = None,
     textAttributes = None\<rparr>"

text \<open>
  The body of the \<open>IPADDRESS_PROPERTY\<close> case of the switch. It throws where a length
  test throws.
\<close>

definition assignAddresses ::
  "jsval \<Rightarrow> IDnssdServiceInstance \<Rightarrow> js_error + IDnssdServiceInstance" where
  "assignAddresses ipAddressesArray serviceInfo =
     (let s1 = serviceInfo\<lparr>ipAddresses := Some ipAddressesArray\<rparr> in
      case length_gt ipAddressesArray 0 of
        Inl err \<Rightarrow> Inl err
      | Inr nonEmpty \<Rightarrow>
          (let s2 = (if nonEmpty
                     then (if regex_test ipv4Pattern (elem ipAddressesArray 0)
                           then s1\<lparr>ipv4Address := Some (JStr (elem ipAddressesArray 0))\<rparr>
                           else s1\<lparr>ipv6Address := Some (JStr (elem ipAddressesArray 0))\<rparr>)
                     else s1) in
           case length_gt ipAddressesArray 1 of
             Inl err \<Rightarrow> Inl err
           | Inr hasSecond \<Rightarrow>
               Inr (if hasSecond
                    then s2\<lparr>ipv6Address := Some (JStr (elem ipAddressesArray 1))\<rparr>
                    else s2)))"

text \<open>The callback of \<open>propertyKeys.forEach\<close>: one key of the list.\<close>

definition mapProperty ::
  "properties \<Rightarrow> string \<Rightarrow> IDnssdServiceInstance \<Rightarrow> js_error + IDnssdServiceInstance" where
  "mapProperty props key serviceInfo =
     (if hasKey props key then
        (let v = lookup props key in
         if key = HOSTNAME_PROPERTY then Inr (serviceInfo\<lparr>hostName := Some v\<rparr>)
         else if key = SERVICENAME_PROPERTY then Inr (serviceInfo\<lparr>serviceName := Some v\<rparr>)
         else if key = INSTANCENAME_PROPERTY then Inr (serviceInfo\<lparr>instanceName := Some v\<rparr>)
         else if key = IPADDRESS_PROPERTY then assignAddresses v serviceInfo
         else if key = PORTNUMBER_PROPERTY then Inr (serviceInfo\<lparr>portNumber := Some v\<rparr>)
         else if key = TEXTATTRIBUTES_PROPERTY then Inr (serviceInfo\<lparr>textAttributes := Some v\<rparr>)
         else Inr serviceInfo)
      else Inr serviceInfo)"

text \<open>\<open>forEach\<close>: the callback on every element in order, left at the first throw.\<close>

fun forEach :: "('k \<Rightarrow> 's \<Rightarrow> js_error + 's) \<Rightarrow> 'k list \<Rightarrow> 's \<Rightarrow> js_error + 's" where
  "forEach f [] s = Inr s"
| "forEach f (k # ks) s = (case f k s of Inl err \<Rightarrow> Inl err | Inr s' \<Rightarrow> forEach f ks s')"

definition getDeviceFromProperties :: "properties \<Rightarrow> js_error + IDnssdServiceInstance" where
  "getDeviceFromProperties props = forEach (mapProperty props) propertyKeys emptyServiceInfo"

text \<open>A bag that holds the address list only, for concrete inputs.\<close>

definition addressBag :: "string list \<Rightarrow> properties" where
  "addressBag xs = map_of [(IPADDRESS_PROPERTY, JArr xs)]"

text \<open>
  The data model's wording of the convenience fields: the first entry of the address list
  that matches the IPv4 pattern, and the first entry that does not.
\<close>

definition spec_ipv4Address :: "string list \<Rightarrow> jsval option" where
  "spec_ipv4Address xs = map_option JStr (find (regex_test ipv4Pattern) xs)"

definition spec_ipv6Address :: "string list \<Rightarrow> jsval option" where
  "spec_ipv6Address xs = map_option JStr (find (\<lambda>a. \<not> regex_test ipv4Pattern a) xs)"

section \<open>The deduplication table as a JavaScript object\<close>

text \<open>
  The table \<open>{ [id: string]: IDnssdServiceInstance }\<close> is an ordinary object: a list of
  its own properties in the order they were created. Reading \<open>table[id]\<close> also finds the
  members that every object inherits from \<open>Object.prototype\<close>, all of them truthy.
\<close>

definition Object_prototype_keys :: "string list" where
  "Object_prototype_keys = [''constructor'', ''hasOwnProperty'', ''isPrototypeOf'',
     ''propertyIsEnumerable'', ''toLocaleString'', ''toString'', ''valueOf'', ''__proto__'',
     ''__defineGetter__'', ''__defineSetter__'', ''__lookupGetter__'', ''__lookupSetter__'']"

text \<open>\<open>table[id]\<close> is truthy.\<close>

definition truthy_at :: "(string \<times> 'v) list \<Rightarrow> string \<Rightarrow> bool" where
  "truthy_at table i = (i \<in> set Object_prototype_keys \<or> map_of table i \<noteq> None)"

text \<open>
  \<open>Object.values\<close> lists the properties whose names are array indices first (a canonical
  decimal numeral below \<open>2^32 - 1\<close>), by ascending index, then the others in the order
  they were created.
\<close>

definition numeric_value :: "string \<Rightarrow> nat" where
  "numeric_value s = foldl (\<lambda>n c. 10 * n + (of_char c - 48)) 0 s"

definition array_index :: "string \<Rightarrow> nat option" where
  "array_index s =
     (if s \<noteq> [] \<and> list_all (in_range CHR ''0'' CHR ''9'') s
         \<and> (s = ''0'' \<or> hd s \<noteq> CHR ''0'') \<and> numeric_value s < 2 ^ 32 - 1
      then Some (numeric_value s) else None)"

definition Object_values :: "(string \<times> 'v) list \<Rightarrow> 'v list" where
  "Object_values table =
     map snd (sort_key (\<lambda>kv. the (array_index (fst kv)))
                (filter (\<lambda>kv. array_index (fst kv) \<noteq> None) table))
     @ map snd (filter (\<lambda>kv. array_index (fst kv) = None) table)"

section \<open>The helper and the platform's watchers\<close>

text \<open>
  A \<open>DeviceInformation\<close> as a handler reads it: its identifier and its property bag.
\<close>

record DeviceInformation =
  id' :: string
  properties :: properties

datatype 'a promise = Resolved 'a | Rejected js_error

text \<open>
  A callback of a client is known by a number; \<open>Noop\<close> is the initial
  \<open>currentSessionCallback\<close>, \<open>() => {}\<close>.
\<close>

datatype callback = Noop | Client nat

text \<open>
  What the helper uses of a \<open>DeviceWatcher\<close>: its status and the listeners added to it.
  The listener for \<open>enumerationcompleted\<close> is a closure over \<open>shouldListenForUpdates\<close>;
  the listeners for \<open>added\<close> and \<open>updated\<close> are \<open>onDeviceAdded\<close> and \<open>onDeviceUpdated\<close>.
\<close>

datatype watcher_status = Created | Started | EnumerationCompleted | Stopped

record watcher =
  status :: watcher_status
  enumerationcompleted_listener :: "bool option"
  added_listener :: bool
  updated_listener :: bool

datatype device_event = Added DeviceInformation | Updated DeviceInformation

datatype log_line =
    Found_services nat
  | Error_discovering js_error
  | Enumeration_completed watcher_status
  | Device_added string
  | Device_updated string
  | Stopping_watcher

text \<open>
  The fields of the class (\<open>DeviceWatcher\<close> is \<open>None\<close> for \<open>null\<close>, otherwise the index
  of a watcher), then the world around it: every watcher created so far, the pending
  continuations of \<open>delay\<close> in the order they fire, the console, and the calls made to
  callbacks.
\<close>

record DnssdLookupHelper =
  DeviceWatcher :: "nat option"
  discoveredDevicesMap :: "(string \<times> IDnssdServiceInstance) list"
  currentSessionCallback :: callback
  watchers :: "watcher list"
  timers :: "(device_event \<times> callback) list"
  console :: "log_line list"
  invocations :: "(callback \<times> IDnssdServiceInstance list) list"

definition initialHelper :: DnssdLookupHelper where
  "initialHelper = \<lparr>DeviceWatcher = None, discoveredDevicesMap = [],
     currentSessionCallback = Noop, watchers = [], timers = [], console = [],
     invocations = []\<rparr>"

definition console_log :: "log_line \<Rightarrow> DnssdLookupHelper \<Rightarrow> DnssdLookupHelper" where
  "console_log l h = h\<lparr>console := console h @ [l]\<rparr>"

definition invoke ::
  "callback \<Rightarrow> IDnssdServiceInstance list \<Rightarrow> DnssdLookupHelper \<Rightarrow> DnssdLookupHelper" where
  "invoke cb discoveredServices h = h\<lparr>invocations := invocations h @ [(cb, discoveredServices)]\<rparr>"

subsection \<open>findAllDevicesAsync\<close>

text \<open>
  The collection that \<open>findAllAsync\<close> returned, as the loop reads it: entry \<open>i\<close> is the
  device that the platform calls of iteration \<open>i\<close> give (\<open>size\<close>, \<open>getAt\<close>,
  \<open>properties\<close>, \<open>hasKey\<close>, \<open>lookup\<close>), or the failure that one of them throws.

  The \<open>for\<close> loop is left at the first throw, of a platform call or of the mapping; the
  result is \<open>services\<close> as it stands then, with what was thrown.
\<close>

function pushDevices ::
  "nat \<Rightarrow> (js_error + DeviceInformation) list \<Rightarrow> IDnssdServiceInstance list
     \<Rightarrow> IDnssdServiceInstance list \<times> js_error option" where
  "pushDevices i comDevices services =
     (if i < length comDevices
      then (case comDevices ! i of
              Inl err \<Rightarrow> (services, Some err)
            | Inr comDevice \<Rightarrow>
                (case getDeviceFromProperties (properties comDevice) of
                   Inl err \<Rightarrow> (services, Some err)
                 | Inr device \<Rightarrow> pushDevices (i + 1) comDevices (services @ [device])))
      else (services, None))"
  by pat_completeness auto
termination
  by (relation "measure (\<lambda>(i, comDevices, services). length comDevices - i)") auto

declare pushDevices.simps [simp del]

text \<open>
  The argument \<open>findAllAsync\<close> is how the awaited platform call settles: \<open>Inl\<close> when it
  throws, \<open>Inr\<close> with the collection otherwise. The \<open>catch\<close> logs what was thrown, and
  the function returns \<open>services\<close> either way. The copy of this function and of
  \<open>getDeviceFromProperties\<close> in the sample application differs in the service name of the
  query only.
\<close>

definition findAllDevicesAsync ::
  "js_error + (js_error + DeviceInformation) list \<Rightarrow> DnssdLookupHelper
     \<Rightarrow> IDnssdServiceInstance list promise \<times> DnssdLookupHelper" where
  "findAllDevicesAsync findAllAsync h =
     (let services = [] in
      case findAllAsync of
        Inl err \<Rightarrow> (Resolved services, console_log (Error_discovering err) h)
      | Inr comDevices \<Rightarrow>
          (case pushDevices 0 comDevices services of
             (services', None) \<Rightarrow>
               (Resolved services', console_log (Found_services (length services')) h)
           | (services', Some err) \<Rightarrow>
               (Resolved services', console_log (Error_discovering err) h)))"

text \<open>The records of the devices that come before the first throw.\<close>

fun mappedBeforeFailure ::
  "(js_error + DeviceInformation) list \<Rightarrow> IDnssdServiceInstance list" where
  "mappedBeforeFailure [] = []"
| "mappedBeforeFailure (Inl err # rest) = []"
| "mappedBeforeFailure (Inr comDevice # rest) =
     (case getDeviceFromProperties (properties comDevice) of
        Inl err \<Rightarrow> []
      | Inr device \<Rightarrow> device # mappedBeforeFailure rest)"

subsection \<open>The watcher\<close>

definition createWatcher :: "DnssdLookupHelper \<Rightarrow> nat \<times> DnssdLookupHelper" where
  "createWatcher h =
     (length (watchers h),
      h\<lparr>watchers := watchers h @ [\<lparr>status = Created, enumerationcompleted_listener = None,
           added_listener = False, updated_listener = False\<rparr>]\<rparr>)"

definition onWatcher :: "nat \<Rightarrow> (watcher \<Rightarrow> watcher) \<Rightarrow> DnssdLookupHelper \<Rightarrow> DnssdLookupHelper" where
  "onWatcher w f h = h\<lparr>watchers := (watchers h)[w := f (watchers h ! w)]\<rparr>"

definition stopListeningForDevices :: "DnssdLookupHelper \<Rightarrow> bool \<times> DnssdLookupHelper" where
  "stopListeningForDevices h =
     (case DeviceWatcher h of
        Some w \<Rightarrow>
          (let h1 = console_log Stopping_watcher h;
               h2 = onWatcher w (\<lambda>x. x\<lparr>status := Stopped\<rparr>) h1;
               h3 = h2\<lparr>DeviceWatcher := None\<rparr>;
               h4 = h3\<lparr>discoveredDevicesMap := []\<rparr>
           in (True, h4))
      | None \<Rightarrow> (False, h))"

definition startListeningForDevicesAsync ::
  "callback \<Rightarrow> bool \<Rightarrow> DnssdLookupHelper \<Rightarrow> bool promise \<times> DnssdLookupHelper" where
  "startListeningForDevicesAsync cb shouldListenForUpdates h =
     (let status0 = False;
          h1 = h\<lparr>DeviceWatcher := None\<rparr>
      in if DeviceWatcher h1 = None then
           (let w = fst (createWatcher h1);
                h2 = (snd (createWatcher h1))\<lparr>DeviceWatcher := Some w\<rparr>;
                h3 = h2\<lparr>currentSessionCallback := cb\<rparr>;
                h4 = onWatcher w
                       (\<lambda>x. x\<lparr>enumerationcompleted_listener := Some shouldListenForUpdates\<rparr>) h3;
                h5 = onWatcher w (\<lambda>x. x\<lparr>added_listener := True\<rparr>) h4;
                h6 = (if shouldListenForUpdates
                      then onWatcher w (\<lambda>x. x\<lparr>updated_listener := True\<rparr>) h5 else h5);
                h7 = onWatcher w (\<lambda>x. x\<lparr>status := Started\<rparr>) h6
            in (Resolved True, h7))
         else (Resolved status0, h1))"

subsection \<open>The handlers\<close>

text \<open>
  \<open>handleDeviceAdded\<close> and \<open>handleDeviceUpdated\<close> from the point where their
  \<open>await delay(...)\<close> has elapsed. When the mapping throws, the promise of the handler
  rejects, nothing catches it, and the helper is as before.
\<close>

definition handleDeviceAdded ::
  "DeviceInformation \<Rightarrow> callback \<Rightarrow> DnssdLookupHelper \<Rightarrow> DnssdLookupHelper" where
  "handleDeviceAdded comDevice cb h =
     (let i = id' comDevice in
      if \<not> truthy_at (discoveredDevicesMap h) i then
        (case getDeviceFromProperties (properties comDevice) of
           Inl err \<Rightarrow> h
         | Inr device \<Rightarrow>
             (let h1 = h\<lparr>discoveredDevicesMap := AList.update i device (discoveredDevicesMap h)\<rparr>;
                  h2 = console_log (Device_added i) h1
              in invoke cb (Object_values (discoveredDevicesMap h2)) h2))
      else h)"

definition handleDeviceUpdated ::
  "DeviceInformation \<Rightarrow> callback \<Rightarrow> DnssdLookupHelper \<Rightarrow> DnssdLookupHelper" where
  "handleDeviceUpdated comDevice cb h =
     (let i = id' comDevice in
      if \<not> truthy_at (discoveredDevicesMap h) i then
        (case getDeviceFromProperties (properties comDevice) of
           Inl err \<Rightarrow> h
         | Inr device \<Rightarrow>
             (let h1 = h\<lparr>discoveredDevicesMap := AList.update i device (discoveredDevicesMap h)\<rparr>;
                  h2 = console_log (Device_updated i) h1
              in invoke cb (Object_values (discoveredDevicesMap h2)) h2))
      else h)"

fun handleDevice :: "device_event \<Rightarrow> callback \<Rightarrow> DnssdLookupHelper \<Rightarrow> DnssdLookupHelper" where
  "handleDevice (Added comDevice) cb h = handleDeviceAdded comDevice cb h"
| "handleDevice (Updated comDevice) cb h = handleDeviceUpdated comDevice cb h"

text \<open>
  \<open>onDeviceAdded\<close> and \<open>onDeviceUpdated\<close> read \<open>currentSessionCallback\<close> when the
  notification arrives and call the handler, which first waits: the rest of the handler
  joins the pending continuations.
\<close>

definition onDeviceAdded :: "DeviceInformation \<Rightarrow> DnssdLookupHelper \<Rightarrow> DnssdLookupHelper" where
  "onDeviceAdded comDevice h =
     h\<lparr>timers := timers h @ [(Added comDevice, currentSessionCallback h)]\<rparr>"

definition onDeviceUpdated :: "DeviceInformation \<Rightarrow> DnssdLookupHelper \<Rightarrow> DnssdLookupHelper" where
  "onDeviceUpdated comDevice h =
     h\<lparr>timers := timers h @ [(Updated comDevice, currentSessionCallback h)]\<rparr>"

definition onEnumerationCompleted :: "nat \<Rightarrow> bool \<Rightarrow> DnssdLookupHelper \<Rightarrow> DnssdLookupHelper" where
  "onEnumerationCompleted w shouldListenForUpdates h =
     (let h1 = console_log (Enumeration_completed (status (watchers h ! w))) h
      in if \<not> shouldListenForUpdates then snd (stopListeningForDevices h1) else h1)"

subsection \<open>Calls and platform events\<close>

text \<open>
  The platform raises events on a watcher that is running, and on no other; it calls the
  listeners that were added for the event.
\<close>

fun running :: "watcher_status \<Rightarrow> bool" where
  "running Started = True"
| "running EnumerationCompleted = True"
| "running Created = False"
| "running Stopped = False"

definition raises :: "nat \<Rightarrow> DnssdLookupHelper \<Rightarrow> bool" where
  "raises w h = (w < length (watchers h) \<and> running (status (watchers h ! w)))"

definition raiseEnumerationCompleted :: "nat \<Rightarrow> DnssdLookupHelper \<Rightarrow> DnssdLookupHelper" where
  "raiseEnumerationCompleted w h =
     (if raises w h then
        (let h1 = onWatcher w (\<lambda>x. x\<lparr>status := EnumerationCompleted\<rparr>) h
         in case enumerationcompleted_listener (watchers h1 ! w) of
              Some shouldListenForUpdates \<Rightarrow> onEnumerationCompleted w shouldListenForUpdates h1
            | None \<Rightarrow> h1)
      else h)"

fun raiseDevice :: "nat \<Rightarrow> device_event \<Rightarrow> DnssdLookupHelper \<Rightarrow> DnssdLookupHelper" where
  "raiseDevice w (Added comDevice) h =
     (if raises w h \<and> added_listener (watchers h ! w) then onDeviceAdded comDevice h else h)"
| "raiseDevice w (Updated comDevice) h =
     (if raises w h \<and> updated_listener (watchers h ! w) then onDeviceUpdated comDevice h else h)"

definition timerFires :: "DnssdLookupHelper \<Rightarrow> DnssdLookupHelper" where
  "timerFires h =
     (case timers h of
        [] \<Rightarrow> h
      | p # ps \<Rightarrow> handleDevice (fst p) (snd p) (h\<lparr>timers := ps\<rparr>))"

datatype event =
    StartListening callback bool
  | StopListening
  | RaiseEnumerationCompleted nat
  | RaiseDevice nat device_event
  | TimerFires

fun step :: "event \<Rightarrow> DnssdLookupHelper \<Rightarrow> DnssdLookupHelper" where
  "step (StartListening cb shouldListenForUpdates) h =
     snd (startListeningForDevicesAsync cb shouldListenForUpdates h)"
| "step StopListening h = snd (stopListeningForDevices h)"
| "step (RaiseEnumerationCompleted w) h = raiseEnumerationCompleted w h"
| "step (RaiseDevice w e) h = raiseDevice w e h"
| "step TimerFires h = timerFires h"

definition exec :: "event list \<Rightarrow> DnssdLookupHelper \<Rightarrow> DnssdLookupHelper" where
  "exec evs h = fold step evs h"

subsection \<open>What a run shows\<close>












subsection \<open>Concrete inputs\<close>

definition printer :: DeviceInformation where
  "printer = \<lparr>id' = ''printer'', properties = addressBag [''10.0.0.1'']\<rparr>"

definition scanner :: DeviceInformation where
  "scanner = \<lparr>id' = ''scanner'', properties = addressBag [''fe80::1'']\<rparr>"

text \<open>A device whose identifier is the name of an inherited member.\<close>

definition inheritedName :: DeviceInformation where
  "inheritedName = \<lparr>id' = ''constructor'', properties = addressBag [''10.0.0.1'']\<rparr>"

text \<open>A bag with five of the six keys, and bags whose address value is not filled in.\<close>

definition serviceBag :: properties where
  "serviceBag = map_of [(HOSTNAME_PROPERTY, JStr ''printer.local''),
     (SERVICENAME_PROPERTY, JStr ''_ipp._tcp''), (INSTANCENAME_PROPERTY, JStr ''printer''),
     (IPADDRESS_PROPERTY, JArr [''10.0.0.1'', ''fe80::2'']),
     (TEXTATTRIBUTES_PROPERTY, JArr [''txtvers=1''])]"

definition nullAddressBag :: properties where
  "nullAddressBag = map_of [(HOSTNAME_PROPERTY, JStr ''printer.local''),
     (IPADDRESS_PROPERTY, JNull)]"

definition undefinedAddressBag :: properties where
  "undefinedAddressBag = map_of [(IPADDRESS_PROPERTY, JUndefined)]"

text \<open>A session that was started and has reported one device.\<close>

definition listening :: DnssdLookupHelper where
  "listening = exec [StartListening (Client 1) False, RaiseDevice 0 (Added printer), TimerFires]
     initialHelper"


text \<open>One call to start a session, then a second call with no call to stop between them.\<close>

definition startedOnce :: DnssdLookupHelper where
  "startedOnce = exec [StartListening (Client 1) False] initialHelper"

definition startedTwice :: DnssdLookupHelper where
  "startedTwice = exec [StartListening (Client 2) False] startedOnce"




text \<open>A collection whose second entry cannot be read.\<close>

definition brokenCollection :: "(js_error + DeviceInformation) list" where
  "brokenCollection = [Inr printer, Inl (Platform_error (- 1)), Inr scanner]"

section \<open>The property mapping\<close>

lemma keys_neq:
  "HOSTNAME_PROPERTY \<noteq> SERVICENAME_PROPERTY" "HOSTNAME_PROPERTY \<noteq> INSTANCENAME_PROPERTY"
  "HOSTNAME_PROPERTY \<noteq> IPADDRESS_PROPERTY" "HOSTNAME_PROPERTY \<noteq> PORTNUMBER_PROPERTY"
  "HOSTNAME_PROPERTY \<noteq> TEXTATTRIBUTES_PROPERTY"
  "SERVICENAME_PROPERTY \<noteq> INSTANCENAME_PROPERTY" "SERVICENAME_PROPERTY \<noteq> IPADDRESS_PROPERTY"
  "SERVICENAME_PROPERTY \<noteq> PORTNUMBER_PROPERTY" "SERVICENAME_PROPERTY \<noteq> TEXTATTRIBUTES_PROPERTY"
  "INSTANCENAME_PROPERTY \<noteq> IPADDRESS_PROPERTY" "INSTANCENAME_PROPERTY \<noteq> PORTNUMBER_PROPERTY"
  "INSTANCENAME_PROPERTY \<noteq> TEXTATTRIBUTES_PROPERTY"
  "IPADDRESS_PROPERTY \<noteq> PORTNUMBER_PROPERTY" "IPADDRESS_PROPERTY \<noteq> TEXTATTRIBUTES_PROPERTY"
  "PORTNUMBER_PROPERTY \<noteq> TEXTATTRIBUTES_PROPERTY"
  by (simp_all add: HOSTNAME_PROPERTY_def SERVICENAME_PROPERTY_def INSTANCENAME_PROPERTY_def
      IPADDRESS_PROPERTY_def PORTNUMBER_PROPERTY_def TEXTATTRIBUTES_PROPERTY_def)

lemmas keys_distinct = keys_neq keys_neq[symmetric]

lemma mapProperty_simps:
  "mapProperty props HOSTNAME_PROPERTY r =
     Inr (case props HOSTNAME_PROPERTY of None \<Rightarrow> r | Some v \<Rightarrow> r\<lparr>hostName := Some v\<rparr>)"
  "mapProperty props SERVICENAME_PROPERTY r =
     Inr (case props SERVICENAME_PROPERTY of None \<Rightarrow> r | Some v \<Rightarrow> r\<lparr>serviceName := Some v\<rparr>)"
  "mapProperty props INSTANCENAME_PROPERTY r =
     Inr (case props INSTANCENAME_PROPERTY of None \<Rightarrow> r
          | Some v \<Rightarrow> r\<lparr>instanceName := Some v\<rparr>)"
  "mapProperty props IPADDRESS_PROPERTY r =
     (case props IPADDRESS_PROPERTY of None \<Rightarrow> Inr r | Some v \<Rightarrow> assignAddresses v r)"
  "mapProperty props PORTNUMBER_PROPERTY r =
     Inr (case props PORTNUMBER_PROPERTY of None \<Rightarrow> r | Some v \<Rightarrow> r\<lparr>portNumber := Some v\<rparr>)"
  "mapProperty props TEXTATTRIBUTES_PROPERTY r =
     Inr (case props TEXTATTRIBUTES_PROPERTY of None \<Rightarrow> r
          | Some v \<Rightarrow> r\<lparr>textAttributes := Some v\<rparr>)"
  by (simp_all add: mapProperty_def hasKey_def lookup_def keys_distinct split: option.splits)

lemma getDeviceFromProperties_unfold:
  "getDeviceFromProperties props =
     (case mapProperty props IPADDRESS_PROPERTY
             (case props INSTANCENAME_PROPERTY of
                None \<Rightarrow> (case props SERVICENAME_PROPERTY of
                   None \<Rightarrow> (case props HOSTNAME_PROPERTY of None \<Rightarrow> emptyServiceInfo
                             | Some v \<Rightarrow> emptyServiceInfo\<lparr>hostName := Some v\<rparr>)
                 | Some v \<Rightarrow> (case props HOSTNAME_PROPERTY of None \<Rightarrow> emptyServiceInfo
                             | Some v \<Rightarrow> emptyServiceInfo\<lparr>hostName := Some v\<rparr>)
                            \<lparr>serviceName := Some v\<rparr>)
              | Some v \<Rightarrow> (case props SERVICENAME_PROPERTY of
                   None \<Rightarrow> (case props HOSTNAME_PROPERTY of None \<Rightarrow> emptyServiceInfo
                             | Some v \<Rightarrow> emptyServiceInfo\<lparr>hostName := Some v\<rparr>)
                 | Some v \<Rightarrow> (case props HOSTNAME_PROPERTY of None \<Rightarrow> emptyServiceInfo
                             | Some v \<Rightarrow> emptyServiceInfo\<lparr>hostName := Some v\<rparr>)
                            \<lparr>serviceName := Some v\<rparr>)
                         \<lparr>instanceName := Some v\<rparr>) of
        Inl err \<Rightarrow> Inl err
      | Inr r \<Rightarrow>
          Inr (case props TEXTATTRIBUTES_PROPERTY of
                 None \<Rightarrow> (case props PORTNUMBER_PROPERTY of None \<Rightarrow> r
                           | Some v \<Rightarrow> r\<lparr>portNumber := Some v\<rparr>)
               | Some v \<Rightarrow> (case props PORTNUMBER_PROPERTY of None \<Rightarrow> r
                           | Some v \<Rightarrow> r\<lparr>portNumber := Some v\<rparr>)\<lparr>textAttributes := Some v\<rparr>))"
  by (simp add: getDeviceFromProperties_def propertyKeys_def mapProperty_simps(1,2,3,5,6)
      split: sum.splits)

lemma assignAddresses_throws:
  "assignAddresses JNull r = Inl TypeError" "assignAddresses JUndefined r = Inl TypeError"
  by (simp_all add: assignAddresses_def)

lemma assignAddresses_JArr:
  "assignAddresses (JArr xs) r =
     Inr (r\<lparr>ipAddresses := Some (JArr xs),
            ipv4Address :=
              (if xs \<noteq> [] \<and> regex_test ipv4Pattern (xs ! 0) then Some (JStr (xs ! 0))
               else ipv4Address r),
            ipv6Address :=
              (if 1 < length xs then Some (JStr (xs ! 1))
               else if xs \<noteq> [] \<and> \<not> regex_test ipv4Pattern (xs ! 0) then Some (JStr (xs ! 0))
               else ipv6Address r)\<rparr>)"
  by (simp add: assignAddresses_def Let_def)

lemma assignAddresses_returns:
  assumes "v \<noteq> JNull" and "v \<noteq> JUndefined"
  shows "\<exists>r'. assignAddresses v r = Inr r' \<and> hostName r' = hostName r
    \<and> serviceName r' = serviceName r \<and> instanceName r' = instanceName r
    \<and> ipAddresses r' = Some v \<and> portNumber r' = portNumber r
    \<and> textAttributes r' = textAttributes r"
  using assms by (cases v) (simp_all add: assignAddresses_def Let_def)

lemma getDeviceFromProperties_throws:
  assumes "props IPADDRESS_PROPERTY = Some JNull \<or> props IPADDRESS_PROPERTY = Some JUndefined"
  shows "getDeviceFromProperties props = Inl TypeError"
  using assms
  by (auto simp add: getDeviceFromProperties_unfold mapProperty_simps(4) assignAddresses_throws)

lemma copied_fields:
  assumes "props IPADDRESS_PROPERTY \<noteq> Some JNull"
    and "props IPADDRESS_PROPERTY \<noteq> Some JUndefined"
  shows "\<exists>r. getDeviceFromProperties props = Inr r
    \<and> hostName r = props HOSTNAME_PROPERTY
    \<and> serviceName r = props SERVICENAME_PROPERTY
    \<and> instanceName r = props INSTANCENAME_PROPERTY
    \<and> ipAddresses r = props IPADDRESS_PROPERTY
    \<and> portNumber r = props PORTNUMBER_PROPERTY
    \<and> textAttributes r = props TEXTATTRIBUTES_PROPERTY"
proof (cases "props IPADDRESS_PROPERTY")
  case None
  then show ?thesis
    by (simp add: getDeviceFromProperties_unfold mapProperty_simps(4) emptyServiceInfo_def
        split: option.splits)
next
  case (Some v)
  with assms have v: "v \<noteq> JNull" "v \<noteq> JUndefined" by auto
  let ?r3 = "case props INSTANCENAME_PROPERTY of
                None \<Rightarrow> (case props SERVICENAME_PROPERTY of
                   None \<Rightarrow> (case props HOSTNAME_PROPERTY of None \<Rightarrow> emptyServiceInfo
                             | Some v \<Rightarrow> emptyServiceInfo\<lparr>hostName := Some v\<rparr>)
                 | Some v \<Rightarrow> (case props HOSTNAME_PROPERTY of None \<Rightarrow> emptyServiceInfo
                             | Some v \<Rightarrow> emptyServiceInfo\<lparr>hostName := Some v\<rparr>)
                            \<lparr>serviceName := Some v\<rparr>)
              | Some v \<Rightarrow> (case props SERVICENAME_PROPERTY of
                   None \<Rightarrow> (case props HOSTNAME_PROPERTY of None \<Rightarrow> emptyServiceInfo
                             | Some v \<Rightarrow> emptyServiceInfo\<lparr>hostName := Some v\<rparr>)
                 | Some v \<Rightarrow> (case props HOSTNAME_PROPERTY of None \<Rightarrow> emptyServiceInfo
                             | Some v \<Rightarrow> emptyServiceInfo\<lparr>hostName := Some v\<rparr>)
                            \<lparr>serviceName := Some v\<rparr>)
                         \<lparr>instanceName := Some v\<rparr>"
  from assignAddresses_returns [OF v, of ?r3] obtain r' where
    r': "assignAddresses v ?r3 = Inr r'" "hostName r' = hostName ?r3"
      "serviceName r' = serviceName ?r3" "instanceName r' = instanceName ?r3"
      "ipAddresses r' = Some v" "portNumber r' = portNumber ?r3"
      "textAttributes r' = textAttributes ?r3"
    by blast
  have base: "hostName ?r3 = props HOSTNAME_PROPERTY" "serviceName ?r3 = props SERVICENAME_PROPERTY"
    "instanceName ?r3 = props INSTANCENAME_PROPERTY" "portNumber ?r3 = None"
    "textAttributes ?r3 = None"
    by (simp_all add: emptyServiceInfo_def split: option.splits)
  show ?thesis
    using Some r' base
    by (simp add: getDeviceFromProperties_unfold mapProperty_simps(4) split: option.splits)
qed

lemma getDeviceFromProperties_JArr:
  assumes "props IPADDRESS_PROPERTY = Some (JArr xs)"
  shows "getDeviceFromProperties props =
     Inr \<lparr>hostName = props HOSTNAME_PROPERTY, serviceName = props SERVICENAME_PROPERTY,
          instanceName = props INSTANCENAME_PROPERTY, ipAddresses = Some (JArr xs),
          ipv4Address =
            (if xs \<noteq> [] \<and> regex_test ipv4Pattern (xs ! 0) then Some (JStr (xs ! 0)) else None),
          ipv6Address =
            (if 1 < length xs then Some (JStr (xs ! 1))
             else if xs \<noteq> [] \<and> \<not> regex_test ipv4Pattern (xs ! 0) then Some (JStr (xs ! 0))
             else None),
          portNumber = props PORTNUMBER_PROPERTY,
          textAttributes = props TEXTATTRIBUTES_PROPERTY\<rparr>"
  using assms
  by (simp add: getDeviceFromProperties_unfold mapProperty_simps(4) assignAddresses_JArr
      emptyServiceInfo_def split: option.splits)

lemma addressBag_lookup:
  "addressBag xs IPADDRESS_PROPERTY = Some (JArr xs)"
  "addressBag xs HOSTNAME_PROPERTY = None" "addressBag xs SERVICENAME_PROPERTY = None"
  "addressBag xs INSTANCENAME_PROPERTY = None" "addressBag xs PORTNUMBER_PROPERTY = None"
  "addressBag xs TEXTATTRIBUTES_PROPERTY = None"
  by (simp_all add: addressBag_def keys_distinct)

lemma getDeviceFromProperties_addressBag:
  "getDeviceFromProperties (addressBag xs) =
     Inr (emptyServiceInfo\<lparr>ipAddresses := Some (JArr xs),
          ipv4Address :=
            (if xs \<noteq> [] \<and> regex_test ipv4Pattern (xs ! 0) then Some (JStr (xs ! 0)) else None),
          ipv6Address :=
            (if 1 < length xs then Some (JStr (xs ! 1))
             else if xs \<noteq> [] \<and> \<not> regex_test ipv4Pattern (xs ! 0) then Some (JStr (xs ! 0))
             else None)\<rparr>)"
  by (simp add: getDeviceFromProperties_JArr [of "addressBag xs" xs] addressBag_lookup
      emptyServiceInfo_def)

lemma ipv4Pattern_192_168_1_5: "regex_test ipv4Pattern ''192.168.1.5''"
  by code_simp

lemma ipv4Pattern_10_0_0_1: "regex_test ipv4Pattern ''10.0.0.1''"
  by code_simp

lemma ipv4Pattern_fe80_1: "\<not> regex_test ipv4Pattern ''fe80::1''"
  by code_simp

lemma bags_address:
  "serviceBag IPADDRESS_PROPERTY = Some (JArr [''10.0.0.1'', ''fe80::2''])"
  "nullAddressBag IPADDRESS_PROPERTY = Some JNull"
  "undefinedAddressBag IPADDRESS_PROPERTY = Some JUndefined"
  by (simp_all add: serviceBag_def nullAddressBag_def undefinedAddressBag_def keys_distinct)

lemma serviceBag_lookup:
  "serviceBag HOSTNAME_PROPERTY = Some (JStr ''printer.local'')"
  "serviceBag SERVICENAME_PROPERTY = Some (JStr ''_ipp._tcp'')"
  "serviceBag INSTANCENAME_PROPERTY = Some (JStr ''printer'')"
  "serviceBag PORTNUMBER_PROPERTY = None"
  "serviceBag TEXTATTRIBUTES_PROPERTY = Some (JArr [''txtvers=1''])"
  by (simp_all add: serviceBag_def keys_distinct)

text \<open>
  Claim C6, amended. For every property bag whose address value, if the key is present, is
  not \<open>null\<close> or \<open>undefined\<close>, the mapping returns a record, and for each of the six
  well-known keys the field of the record is the bag's entry for the key: the value itself
  when the key is present, unset when the key is absent. When the address value is \<open>null\<close>
  or \<open>undefined\<close> the mapping throws a \<open>TypeError\<close> and returns no record.
\<close>

theorem getDeviceFromProperties_copies_fields:
  "(props IPADDRESS_PROPERTY \<noteq> Some JNull \<and> props IPADDRESS_PROPERTY \<noteq> Some JUndefined \<longrightarrow>
      (\<exists>r. getDeviceFromProperties props = Inr r
         \<and> hostName r = props HOSTNAME_PROPERTY
         \<and> serviceName r = props SERVICENAME_PROPERTY
         \<and> instanceName r = props INSTANCENAME_PROPERTY
         \<and> ipAddresses r = props IPADDRESS_PROPERTY
         \<and> portNumber r = props PORTNUMBER_PROPERTY
         \<and> textAttributes r = props TEXTATTRIBUTES_PROPERTY))
   \<and> (props IPADDRESS_PROPERTY = Some JNull \<or> props IPADDRESS_PROPERTY = Some JUndefined \<longrightarrow>
        getDeviceFromProperties props = Inl TypeError)"
  using copied_fields [of props] getDeviceFromProperties_throws [of props] by blast

theorem getDeviceFromProperties_copies_fields_witness:
  "serviceBag IPADDRESS_PROPERTY \<noteq> Some JNull
   \<and> serviceBag IPADDRESS_PROPERTY \<noteq> Some JUndefined
   \<and> (\<exists>r. getDeviceFromProperties serviceBag = Inr r
        \<and> hostName r = Some (JStr ''printer.local'')
        \<and> serviceName r = Some (JStr ''_ipp._tcp'')
        \<and> instanceName r = Some (JStr ''printer'')
        \<and> ipAddresses r = Some (JArr [''10.0.0.1'', ''fe80::2''])
        \<and> portNumber r = None
        \<and> textAttributes r = Some (JArr [''txtvers=1'']))
   \<and> undefinedAddressBag IPADDRESS_PROPERTY = Some JUndefined
   \<and> getDeviceFromProperties undefinedAddressBag = Inl TypeError"
  using getDeviceFromProperties_copies_fields [of serviceBag]
    getDeviceFromProperties_copies_fields [of undefinedAddressBag]
  by (simp add: bags_address serviceBag_lookup)

text \<open>
  The statement for every property bag fails on a bag that has the address key with the
  value \<open>null\<close>: the mapping throws at \<open>ipAddressesArray.length\<close>, so there is no mapped
  record, although the host name key is present too.
\<close>

theorem null_address_counterexample:
  "nullAddressBag IPADDRESS_PROPERTY = Some JNull
   \<and> nullAddressBag HOSTNAME_PROPERTY = Some (JStr ''printer.local'')
   \<and> getDeviceFromProperties nullAddressBag = Inl TypeError"
  by (simp add: bags_address getDeviceFromProperties_throws nullAddressBag_def keys_distinct)

text \<open>
  Claim C1. When the address list is present and not empty, the mapping returns a record
  whose \<open>ipAddresses\<close> is the list, whose \<open>ipv4Address\<close> is entry 0 if entry 0 matches the
  IPv4 pattern, and whose \<open>ipv6Address\<close> is entry 1 if there is one and otherwise entry 0
  if entry 0 does not match. On \<open>["192.168.1.5"]\<close>, \<open>["fe80::1"]\<close> and
  \<open>["10.0.0.1", "fe80::2"]\<close> the two fields are as the specification lists them.
\<close>

theorem getDeviceFromProperties_addresses:
  "(props IPADDRESS_PROPERTY = Some (JArr xs) \<and> xs \<noteq> [] \<longrightarrow>
      (\<exists>r. getDeviceFromProperties props = Inr r
         \<and> ipAddresses r = Some (JArr xs)
         \<and> ipv4Address r =
             (if regex_test ipv4Pattern (xs ! 0) then Some (JStr (xs ! 0)) else None)
         \<and> ipv6Address r =
             (if 1 < length xs then Some (JStr (xs ! 1))
              else if regex_test ipv4Pattern (xs ! 0) then None else Some (JStr (xs ! 0)))))
   \<and> (\<exists>r. getDeviceFromProperties (addressBag [''192.168.1.5'']) = Inr r
        \<and> ipv4Address r = Some (JStr ''192.168.1.5'') \<and> ipv6Address r = None)
   \<and> (\<exists>r. getDeviceFromProperties (addressBag [''fe80::1'']) = Inr r
        \<and> ipv6Address r = Some (JStr ''fe80::1'') \<and> ipv4Address r = None)
   \<and> (\<exists>r. getDeviceFromProperties (addressBag [''10.0.0.1'', ''fe80::2'']) = Inr r
        \<and> ipv4Address r = Some (JStr ''10.0.0.1'')
        \<and> ipv6Address r = Some (JStr ''fe80::2''))"
proof -
  have general: "props IPADDRESS_PROPERTY = Some (JArr xs) \<and> xs \<noteq> [] \<longrightarrow>
      (\<exists>r. getDeviceFromProperties props = Inr r
         \<and> ipAddresses r = Some (JArr xs)
         \<and> ipv4Address r =
             (if regex_test ipv4Pattern (xs ! 0) then Some (JStr (xs ! 0)) else None)
         \<and> ipv6Address r =
             (if 1 < length xs then Some (JStr (xs ! 1))
              else if regex_test ipv4Pattern (xs ! 0) then None else Some (JStr (xs ! 0))))"
    by (simp add: getDeviceFromProperties_JArr)
  have examples:
    "\<exists>r. getDeviceFromProperties (addressBag [''192.168.1.5'']) = Inr r
        \<and> ipv4Address r = Some (JStr ''192.168.1.5'') \<and> ipv6Address r = None"
    "\<exists>r. getDeviceFromProperties (addressBag [''fe80::1'']) = Inr r
        \<and> ipv6Address r = Some (JStr ''fe80::1'') \<and> ipv4Address r = None"
    "\<exists>r. getDeviceFromProperties (addressBag [''10.0.0.1'', ''fe80::2'']) = Inr r
        \<and> ipv4Address r = Some (JStr ''10.0.0.1'')
        \<and> ipv6Address r = Some (JStr ''fe80::2'')"
    by (simp_all add: getDeviceFromProperties_addressBag emptyServiceInfo_def
        ipv4Pattern_192_168_1_5 ipv4Pattern_10_0_0_1 ipv4Pattern_fe80_1)
  from general examples show ?thesis by blast
qed

theorem getDeviceFromProperties_addresses_witness:
  "addressBag [''192.168.1.5'', ''fe80::1''] IPADDRESS_PROPERTY
     = Some (JArr [''192.168.1.5'', ''fe80::1''])
   \<and> [''192.168.1.5'', ''fe80::1''] \<noteq> []
   \<and> (\<exists>r. getDeviceFromProperties (addressBag [''192.168.1.5'', ''fe80::1'']) = Inr r
        \<and> ipAddresses r = Some (JArr [''192.168.1.5'', ''fe80::1''])
        \<and> ipv4Address r = Some (JStr ''192.168.1.5'')
        \<and> ipv6Address r = Some (JStr ''fe80::1''))"
  using getDeviceFromProperties_addresses
    [of "addressBag [''192.168.1.5'', ''fe80::1'']" "[''192.168.1.5'', ''fe80::1'']"]
  by (simp add: addressBag_lookup ipv4Pattern_192_168_1_5)

text \<open>
  Claim C10. When the address list is present and empty, the mapping returns a record whose
  \<open>ipAddresses\<close> is the empty list and whose two convenience fields are unset.
\<close>

theorem getDeviceFromProperties_empty_addresses:
  "props IPADDRESS_PROPERTY = Some (JArr []) \<Longrightarrow>
     \<exists>r. getDeviceFromProperties props = Inr r
       \<and> ipAddresses r = Some (JArr [])
       \<and> ipv4Address r = None
       \<and> ipv6Address r = None"
  by (simp add: getDeviceFromProperties_JArr)

theorem getDeviceFromProperties_empty_addresses_witness:
  "addressBag [] IPADDRESS_PROPERTY = Some (JArr [])
   \<and> (\<exists>r. getDeviceFromProperties (addressBag []) = Inr r
        \<and> ipAddresses r = Some (JArr [])
        \<and> ipv4Address r = None
        \<and> ipv6Address r = None)"
  using getDeviceFromProperties_empty_addresses [of "addressBag []"]
  by (simp add: addressBag_lookup)

subsection \<open>First matching entries\<close>

lemma find_Some_holds: "find P xs = Some x \<Longrightarrow> P x"
  by (auto simp add: find_Some_iff)

lemma spec_ipv4Address_None:
  "(None = spec_ipv4Address xs) = (\<not> list_ex (regex_test ipv4Pattern) xs)"
  by (auto simp add: spec_ipv4Address_def find_None_iff list_ex_iff)

lemma spec_ipv6Address_matching:
  "regex_test ipv4Pattern b \<Longrightarrow> spec_ipv6Address xs \<noteq> Some (JStr b)"
  by (auto simp add: spec_ipv6Address_def dest: find_Some_holds)

lemma spec_ipv6Address_no_match:
  "regex_test ipv4Pattern b \<Longrightarrow> Some (JStr b) \<noteq> spec_ipv6Address xs"
  using spec_ipv6Address_matching [of b xs] by auto

lemma spec_Cons:
  "spec_ipv4Address (a # xs) =
     (if regex_test ipv4Pattern a then Some (JStr a) else spec_ipv4Address xs)"
  "spec_ipv6Address (a # xs) =
     (if regex_test ipv4Pattern a then spec_ipv6Address xs else Some (JStr a))"
  by (simp_all add: spec_ipv4Address_def spec_ipv6Address_def)

lemma position_fields_agree:
  "(((if xs \<noteq> [] \<and> regex_test ipv4Pattern (xs ! 0) then Some (JStr (xs ! 0)) else None)
       = spec_ipv4Address xs
     \<and> (if 1 < length xs then Some (JStr (xs ! 1))
         else if xs \<noteq> [] \<and> \<not> regex_test ipv4Pattern (xs ! 0) then Some (JStr (xs ! 0))
         else None) = spec_ipv6Address xs)
    = (length xs \<le> 1
       \<or> (1 < length xs \<and> regex_test ipv4Pattern (xs ! 0)
           \<and> \<not> regex_test ipv4Pattern (xs ! 1))
       \<or> (1 < length xs \<and> xs ! 0 = xs ! 1 \<and> \<not> list_ex (regex_test ipv4Pattern) xs)))"
proof (cases xs)
  case Nil
  then show ?thesis by (simp add: spec_ipv4Address_def spec_ipv6Address_def)
next
  case (Cons a ys)
  note xs = this
  show ?thesis
  proof (cases ys)
    case Nil
    then show ?thesis using xs by (simp add: spec_ipv4Address_def spec_ipv6Address_def)
  next
    case (Cons b zs)
    then show ?thesis using xs
      by (simp add: spec_Cons spec_ipv4Address_None spec_ipv6Address_no_match) auto
  qed
qed

text \<open>
  Claim C9, amended. The convenience fields are read from positions 0 and 1 only:
  \<open>ipv4Address\<close> is entry 0 if it matches the IPv4 pattern and is unset otherwise;
  \<open>ipv6Address\<close> is entry 1 if the list has one, otherwise entry 0 if that does not match.
  They are the first matching and the first non-matching entry of the list exactly when the
  list has at most one entry, or entry 0 matches and entry 1 does not, or the first two
  entries are equal and no entry matches.
\<close>

theorem convenience_fields_by_position:
  assumes "props IPADDRESS_PROPERTY = Some (JArr xs)"
  shows "\<exists>r. getDeviceFromProperties props = Inr r
    \<and> ipv4Address r =
           (if xs \<noteq> [] \<and> regex_test ipv4Pattern (xs ! 0) then Some (JStr (xs ! 0)) else None)
    \<and> ipv6Address r =
           (if 1 < length xs then Some (JStr (xs ! 1))
            else if xs \<noteq> [] \<and> \<not> regex_test ipv4Pattern (xs ! 0) then Some (JStr (xs ! 0))
            else None)
    \<and> ((ipv4Address r = spec_ipv4Address xs \<and> ipv6Address r = spec_ipv6Address xs)
        = (length xs \<le> 1
           \<or> (1 < length xs \<and> regex_test ipv4Pattern (xs ! 0)
               \<and> \<not> regex_test ipv4Pattern (xs ! 1))
           \<or> (1 < length xs \<and> xs ! 0 = xs ! 1 \<and> \<not> list_ex (regex_test ipv4Pattern) xs)))"
  using position_fields_agree [of xs] assms
  by (simp add: getDeviceFromProperties_JArr [of props xs])

theorem convenience_fields_by_position_witness:
  "addressBag [''10.0.0.1'', ''192.168.1.5''] IPADDRESS_PROPERTY
     = Some (JArr [''10.0.0.1'', ''192.168.1.5''])
   \<and> (\<exists>r. getDeviceFromProperties (addressBag [''10.0.0.1'', ''192.168.1.5'']) = Inr r
        \<and> ipv4Address r = Some (JStr ''10.0.0.1'')
        \<and> ipv6Address r = Some (JStr ''192.168.1.5'')
        \<and> \<not> (ipv4Address r = spec_ipv4Address [''10.0.0.1'', ''192.168.1.5'']
             \<and> ipv6Address r = spec_ipv6Address [''10.0.0.1'', ''192.168.1.5'']))"
  using convenience_fields_by_position
    [of "addressBag [''10.0.0.1'', ''192.168.1.5'']" "[''10.0.0.1'', ''192.168.1.5'']"]
  by (auto simp add: addressBag_lookup ipv4Pattern_192_168_1_5 ipv4Pattern_10_0_0_1)

text \<open>
  The statement with "regardless of the entries' positions" fails on the list
  \<open>["fe80::1", "10.0.0.1"]\<close>: the first entry that matches the pattern is the second one,
  yet \<open>ipv4Address\<close> stays unset and \<open>ipv6Address\<close> is \<open>"10.0.0.1"\<close>.
\<close>

theorem first_match_counterexample:
  "getDeviceFromProperties (addressBag [''fe80::1'', ''10.0.0.1''])
     = Inr (emptyServiceInfo\<lparr>ipAddresses := Some (JArr [''fe80::1'', ''10.0.0.1'']),
             ipv6Address := Some (JStr ''10.0.0.1'')\<rparr>)
   \<and> \<not> (ipv4Address (emptyServiceInfo\<lparr>ipAddresses := Some (JArr [''fe80::1'', ''10.0.0.1'']),
             ipv6Address := Some (JStr ''10.0.0.1'')\<rparr>)
          = spec_ipv4Address [''fe80::1'', ''10.0.0.1'']
        \<and> ipv6Address (emptyServiceInfo\<lparr>ipAddresses := Some (JArr [''fe80::1'', ''10.0.0.1'']),
             ipv6Address := Some (JStr ''10.0.0.1'')\<rparr>)
          = spec_ipv6Address [''fe80::1'', ''10.0.0.1''])"
  by (simp add: getDeviceFromProperties_addressBag emptyServiceInfo_def
        spec_ipv4Address_def spec_ipv6Address_def ipv4Pattern_10_0_0_1 ipv4Pattern_fe80_1)

section \<open>Concrete devices and states\<close>

lemma device_ids:
  "id' printer = ''printer''" "id' scanner = ''scanner''" "id' inheritedName = ''constructor''"
  by (simp_all add: printer_def scanner_def inheritedName_def)

lemma devices_mapped:
  "getDeviceFromProperties (properties printer) =
     Inr (emptyServiceInfo\<lparr>ipAddresses := Some (JArr [''10.0.0.1'']),
            ipv4Address := Some (JStr ''10.0.0.1'')\<rparr>)"
  "getDeviceFromProperties (properties scanner) =
     Inr (emptyServiceInfo\<lparr>ipAddresses := Some (JArr [''fe80::1'']),
            ipv6Address := Some (JStr ''fe80::1'')\<rparr>)"
  "getDeviceFromProperties (properties inheritedName) =
     Inr (emptyServiceInfo\<lparr>ipAddresses := Some (JArr [''10.0.0.1'']),
            ipv4Address := Some (JStr ''10.0.0.1'')\<rparr>)"
  by (simp_all add: printer_def scanner_def inheritedName_def getDeviceFromProperties_addressBag
      emptyServiceInfo_def ipv4Pattern_10_0_0_1 ipv4Pattern_fe80_1)


lemma names_not_indices:
  "array_index ''printer'' = None" "array_index ''scanner'' = None"
  by (simp_all add: array_index_def in_range_def)

lemmas run_defs =
  exec_def startListeningForDevicesAsync_def stopListeningForDevices_def createWatcher_def
  onWatcher_def initialHelper_def raises_def raiseEnumerationCompleted_def
  onEnumerationCompleted_def console_log_def invoke_def onDeviceAdded_def onDeviceUpdated_def
  timerFires_def handleDeviceAdded_def handleDeviceUpdated_def truthy_at_def
  Object_prototype_keys_def Object_values_def names_not_indices device_ids devices_mapped
  Let_def

section \<open>One-shot enumeration\<close>

lemma pushDevices_prefix:
  "fst (pushDevices i comDevices services) =
     services @ mappedBeforeFailure (drop i comDevices)"
proof (induction i comDevices services rule: pushDevices.induct)
  case (1 i comDevices services)
  show ?case
  proof (cases "i < length comDevices")
    case False
    then show ?thesis by (subst pushDevices.simps) simp
  next
    case True
    then have d: "drop i comDevices = comDevices ! i # drop (Suc i) comDevices"
      by (simp add: Cons_nth_drop_Suc)
    show ?thesis
    proof (cases "comDevices ! i")
      case (Inl err)
      with True d show ?thesis by (subst pushDevices.simps) simp
    next
      case (Inr comDevice)
      note dev = this
      show ?thesis
      proof (cases "getDeviceFromProperties (properties comDevice)")
        case (Inl err)
        with True d dev show ?thesis by (subst pushDevices.simps) simp
      next
        case (Inr device)
        with True d dev "1" [OF True dev Inr] show ?thesis
          by (subst pushDevices.simps) simp
      qed
    qed
  qed
qed

lemma findAllDevicesAsync_value:
  "fst (findAllDevicesAsync (Inr comDevices) h) = Resolved (mappedBeforeFailure comDevices)"
proof -
  have "fst (pushDevices 0 comDevices []) = mappedBeforeFailure comDevices"
    by (simp add: pushDevices_prefix)
  then show ?thesis
    by (cases "pushDevices 0 comDevices []")
       (auto simp add: findAllDevicesAsync_def split: option.splits)
qed

text \<open>
  Claim C4, amended. \<open>findAllDevicesAsync\<close> resolves and never rejects. When the
  enumeration request itself fails, the value is the empty list and the error goes to the
  console. When the request succeeds, the value is the list of the records mapped before
  the first failure raised while the results are read, and the whole list when there is no
  failure.
\<close>

theorem findAllDevicesAsync_resolves:
  "findAllDevicesAsync (Inl err) h = (Resolved [], console_log (Error_discovering err) h)
   \<and> fst (findAllDevicesAsync (Inr comDevices) h) = Resolved (mappedBeforeFailure comDevices)"
  by (simp add: findAllDevicesAsync_value) (simp add: findAllDevicesAsync_def)

theorem findAllDevicesAsync_resolves_witness:
  "findAllDevicesAsync (Inl (Platform_error (- 1))) initialHelper
     = (Resolved [], console_log (Error_discovering (Platform_error (- 1))) initialHelper)
   \<and> fst (findAllDevicesAsync (Inr [Inr printer, Inr scanner]) initialHelper)
     = Resolved [emptyServiceInfo\<lparr>ipAddresses := Some (JArr [''10.0.0.1'']),
                  ipv4Address := Some (JStr ''10.0.0.1'')\<rparr>,
                 emptyServiceInfo\<lparr>ipAddresses := Some (JArr [''fe80::1'']),
                  ipv6Address := Some (JStr ''fe80::1'')\<rparr>]"
  using findAllDevicesAsync_resolves
    [of "Platform_error (- 1)" initialHelper "[Inr printer, Inr scanner]"]
  by (simp add: devices_mapped)

text \<open>
  The statement that the value is the empty list for every failure fails when the second
  entry of the collection cannot be read: the loop has pushed the first record, the
  \<open>catch\<close> keeps it, and the value is that one record.
\<close>

theorem partial_list_counterexample:
  "fst (findAllDevicesAsync (Inr brokenCollection) initialHelper)
     = Resolved [emptyServiceInfo\<lparr>ipAddresses := Some (JArr [''10.0.0.1'']),
                  ipv4Address := Some (JStr ''10.0.0.1'')\<rparr>]
   \<and> fst (findAllDevicesAsync (Inr brokenCollection) initialHelper) \<noteq> Resolved []"
  by (simp add: findAllDevicesAsync_value brokenCollection_def devices_mapped)

section \<open>Stopping and starting the watcher\<close>

lemma listening_state:
  "DeviceWatcher listening = Some 0"
  "length (watchers listening) = 1"
  "discoveredDevicesMap listening =
     [(''printer'', emptyServiceInfo\<lparr>ipAddresses := Some (JArr [''10.0.0.1'']),
                      ipv4Address := Some (JStr ''10.0.0.1'')\<rparr>)]"
  by (simp_all add: listening_def run_defs)

text \<open>
  Claim C5. \<open>stopListeningForDevices\<close> with no watcher held returns false and leaves the
  helper as it was; with a watcher held it returns true, and afterwards the deduplication
  map is empty, no watcher is held, and the watcher that was held is stopped.
\<close>

theorem stopListeningForDevices_result:
  "(DeviceWatcher h = None \<longrightarrow> stopListeningForDevices h = (False, h))
   \<and> (DeviceWatcher h = Some w \<longrightarrow>
        fst (stopListeningForDevices h) = True
        \<and> discoveredDevicesMap (snd (stopListeningForDevices h)) = []
        \<and> DeviceWatcher (snd (stopListeningForDevices h)) = None
        \<and> (w < length (watchers h) \<longrightarrow>
             status (watchers (snd (stopListeningForDevices h)) ! w) = Stopped))"
  by (simp add: stopListeningForDevices_def Let_def onWatcher_def console_log_def)

theorem stopListeningForDevices_result_witness:
  "DeviceWatcher initialHelper = None
   \<and> stopListeningForDevices initialHelper = (False, initialHelper)
   \<and> DeviceWatcher listening = Some 0
   \<and> discoveredDevicesMap listening \<noteq> []
   \<and> fst (stopListeningForDevices listening) = True
   \<and> discoveredDevicesMap (snd (stopListeningForDevices listening)) = []
   \<and> DeviceWatcher (snd (stopListeningForDevices listening)) = None
   \<and> status (watchers (snd (stopListeningForDevices listening)) ! 0) = Stopped"
proof -
  have none: "DeviceWatcher initialHelper = None"
    by (simp add: initialHelper_def)
  from none stopListeningForDevices_result [of initialHelper]
    stopListeningForDevices_result [of listening 0]
  show ?thesis
    by (simp add: listening_state)
qed

lemma startListeningForDevicesAsync_true:
  "fst (startListeningForDevicesAsync cb shouldListenForUpdates h) = Resolved True"
  by (simp add: startListeningForDevicesAsync_def Let_def)

lemma startListeningForDevicesAsync_new_watcher:
  "DeviceWatcher (snd (startListeningForDevicesAsync cb shouldListenForUpdates h))
     = Some (length (watchers h))"
  by (simp add: startListeningForDevicesAsync_def Let_def createWatcher_def onWatcher_def)

text \<open>
  Claim C2. The second of two calls to \<open>startListeningForDevicesAsync\<close>, made while the
  watcher of the first is held and running, resolves to true and starts a second watcher:
  the handle is set to \<open>null\<close> just before it is tested.
\<close>

theorem startListeningForDevicesAsync_while_running:
  "DeviceWatcher startedOnce = Some 0
   \<and> map status (watchers startedOnce) = [Started]
   \<and> fst (startListeningForDevicesAsync (Client 2) False startedOnce) = Resolved True
   \<and> DeviceWatcher startedTwice = Some 1
   \<and> map status (watchers startedTwice) = [Started, Started]"
  by (simp add: startedTwice_def startedOnce_def exec_def startListeningForDevicesAsync_def
      createWatcher_def onWatcher_def initialHelper_def Let_def)

section \<open>The handlers\<close>

text \<open>
  Claim C7. \<open>handleDeviceAdded\<close> and \<open>handleDeviceUpdated\<close> make the same transition from
  every state: the same deduplication map and the same calls to the callback. The two
  results differ in the console line only.
\<close>

theorem handlers_same_transition:
  "discoveredDevicesMap (handleDeviceAdded d cb h)
     = discoveredDevicesMap (handleDeviceUpdated d cb h)
   \<and> invocations (handleDeviceAdded d cb h) = invocations (handleDeviceUpdated d cb h)
   \<and> handleDeviceUpdated d cb h =
       (handleDeviceAdded d cb h)\<lparr>console := console (handleDeviceUpdated d cb h)\<rparr>"
  by (simp add: handleDeviceAdded_def handleDeviceUpdated_def Let_def console_log_def invoke_def
      split: sum.splits)






lemma handleDevice_keeps:
  "timers (handleDevice e cb h) = timers h"
  "watchers (handleDevice e cb h) = watchers h"
  "DeviceWatcher (handleDevice e cb h) = DeviceWatcher h"
  "currentSessionCallback (handleDevice e cb h) = currentSessionCallback h"
  by (cases e;
      simp add: handleDeviceAdded_def handleDeviceUpdated_def Let_def console_log_def invoke_def
        split: sum.splits)+
























section \<open>Notifications and the end of the enumeration\<close>

text \<open>
  A notification on a running watcher that has the listener, followed by the end of the
  handler's wait, is the handler run with the session's callback. An \<open>updated\<close>
  notification on a watcher without the listener changes nothing.
\<close>

lemma notification_then_timer:
  assumes "raises w h" and "timers h = []"
  shows "added_listener (watchers h ! w) \<Longrightarrow>
           exec [RaiseDevice w (Added d), TimerFires] h
             = handleDeviceAdded d (currentSessionCallback h) h"
    and "updated_listener (watchers h ! w) \<Longrightarrow>
           exec [RaiseDevice w (Updated d), TimerFires] h
             = handleDeviceUpdated d (currentSessionCallback h) h"
proof -
  have same: "h\<lparr>timers := []\<rparr> = h"
    using assms(2) by (cases h) simp
  show "added_listener (watchers h ! w) \<Longrightarrow>
           exec [RaiseDevice w (Added d), TimerFires] h
             = handleDeviceAdded d (currentSessionCallback h) h"
    using assms by (simp add: exec_def onDeviceAdded_def timerFires_def same)
  show "updated_listener (watchers h ! w) \<Longrightarrow>
           exec [RaiseDevice w (Updated d), TimerFires] h
             = handleDeviceUpdated d (currentSessionCallback h) h"
    using assms by (simp add: exec_def onDeviceUpdated_def timerFires_def same)
qed

lemma updated_without_listener:
  "\<not> updated_listener (watchers h ! w) \<Longrightarrow> raiseDevice w (Updated d) h = h"
  by simp

lemma startListeningForDevicesAsync_listeners:
  "updated_listener
     (watchers (snd (startListeningForDevicesAsync cb shouldListenForUpdates h))
        ! length (watchers h)) = shouldListenForUpdates"
  "added_listener
     (watchers (snd (startListeningForDevicesAsync cb shouldListenForUpdates h))
        ! length (watchers h))"
  "enumerationcompleted_listener
     (watchers (snd (startListeningForDevicesAsync cb shouldListenForUpdates h))
        ! length (watchers h)) = Some shouldListenForUpdates"
  "status
     (watchers (snd (startListeningForDevicesAsync cb shouldListenForUpdates h))
        ! length (watchers h)) = Started"
  by (simp_all add: startListeningForDevicesAsync_def Let_def createWatcher_def onWatcher_def)

text \<open>
  When the watcher that signals the end of the enumeration is the one the helper holds,
  and its session was started without live updates, the signal stops it.
\<close>

lemma enumeration_completed_stops_held_watcher:
  assumes "DeviceWatcher h = Some w" and "raises w h"
    and "enumerationcompleted_listener (watchers h ! w) = Some False"
  shows "status (watchers (raiseEnumerationCompleted w h) ! w) = Stopped"
    and "DeviceWatcher (raiseEnumerationCompleted w h) = None"
    and "discoveredDevicesMap (raiseEnumerationCompleted w h) = []"
  using assms
  by (simp_all add: raiseEnumerationCompleted_def raises_def onWatcher_def
      onEnumerationCompleted_def stopListeningForDevices_def console_log_def Let_def)

text \<open>A stopped watcher raises nothing, and nothing starts it again.\<close>

lemma stopped_watcher_silent:
  "status (watchers h ! w) = Stopped \<Longrightarrow> raiseDevice w e h = h"
  by (cases e) (simp_all add: raises_def)

lemma stopped_watcher_no_completion:
  "status (watchers h ! w) = Stopped \<Longrightarrow> raiseEnumerationCompleted w h = h"
  by (simp add: raises_def raiseEnumerationCompleted_def)

lemma raiseDevice_watchers: "watchers (raiseDevice w e h) = watchers h"
  by (cases e) (simp_all add: onDeviceAdded_def onDeviceUpdated_def)

lemma timerFires_watchers: "watchers (timerFires h) = watchers h"
  by (simp add: timerFires_def handleDevice_keeps split: list.splits)

lemma stopListeningForDevices_keeps_stopped:
  assumes "w < length (watchers h)" and "status (watchers h ! w) = Stopped"
  shows "w < length (watchers (snd (stopListeningForDevices h)))
    \<and> status (watchers (snd (stopListeningForDevices h)) ! w) = Stopped"
proof (cases "DeviceWatcher h")
  case None
  with assms show ?thesis by (simp add: stopListeningForDevices_def)
next
  case (Some v)
  show ?thesis
  proof (cases "v = w")
    case True
    with Some assms show ?thesis
      by (simp add: stopListeningForDevices_def Let_def onWatcher_def console_log_def)
  next
    case False
    with Some assms show ?thesis
      by (simp add: stopListeningForDevices_def Let_def onWatcher_def console_log_def)
  qed
qed

lemma step_keeps_stopped:
  assumes "w < length (watchers h)" and "status (watchers h ! w) = Stopped"
  shows "w < length (watchers (step ev h)) \<and> status (watchers (step ev h) ! w) = Stopped"
proof (cases ev)
  case (StartListening cb b)
  with assms show ?thesis
    by (simp add: startListeningForDevicesAsync_def Let_def createWatcher_def onWatcher_def
        nth_append)
next
  case StopListening
  with stopListeningForDevices_keeps_stopped [OF assms] show ?thesis by simp
next
  case (RaiseEnumerationCompleted v)
  show ?thesis
  proof (cases "raises v h")
    case False
    with assms RaiseEnumerationCompleted show ?thesis
      by (simp add: raiseEnumerationCompleted_def)
  next
    case True
    with assms have neq: "v \<noteq> w" by (auto simp add: raises_def)
    let ?h1 = "onWatcher v (\<lambda>x. x\<lparr>status := EnumerationCompleted\<rparr>) h"
    have h1: "w < length (watchers ?h1)" "status (watchers ?h1 ! w) = Stopped"
      using assms neq by (simp_all add: onWatcher_def)
    have logged: "w < length (watchers (console_log l ?h1))"
      "status (watchers (console_log l ?h1) ! w) = Stopped" for l
      using h1 by (simp_all add: console_log_def)
    from True RaiseEnumerationCompleted h1 stopListeningForDevices_keeps_stopped [OF logged]
    show ?thesis
      by (auto simp add: raiseEnumerationCompleted_def onEnumerationCompleted_def Let_def
          console_log_def split: option.splits)
  qed
next
  case (RaiseDevice v e)
  with assms show ?thesis by (simp add: raiseDevice_watchers)
next
  case TimerFires
  with assms show ?thesis by (simp add: timerFires_watchers)
qed

lemma stopped_watcher_stays_stopped:
  "w < length (watchers h) \<Longrightarrow> status (watchers h ! w) = Stopped \<Longrightarrow>
     w < length (watchers (exec evs h)) \<and> status (watchers (exec evs h) ! w) = Stopped"
proof (induction evs arbitrary: h)
  case Nil
  then show ?case by (simp add: exec_def)
next
  case (Cons ev evs)
  from step_keeps_stopped [OF Cons.prems]
  have "w < length (watchers (step ev h))" "status (watchers (step ev h) ! w) = Stopped"
    by simp_all
  from Cons.IH [OF this] show ?case by (simp add: exec_def)
qed

text \<open>
  Claim C8. Two sessions are started without live updates, the second while the first is
  running. When the watcher of the first session signals the end of its enumeration, the
  helper stops the watcher it holds, which is the second one; the watcher of the first
  session keeps running, and a device it reports afterwards reaches the callback.
\<close>

theorem enumeration_completed_after_second_start:
  "map enumerationcompleted_listener (watchers startedTwice) = [Some False, Some False]
   \<and> map status (watchers (exec [RaiseEnumerationCompleted 0] startedTwice))
       = [EnumerationCompleted, Stopped]
   \<and> invocations
       (exec [RaiseEnumerationCompleted 0, RaiseDevice 0 (Added printer), TimerFires]
          startedTwice)
       = [(Client 2, [emptyServiceInfo\<lparr>ipAddresses := Some (JArr [''10.0.0.1'']),
                         ipv4Address := Some (JStr ''10.0.0.1'')\<rparr>])]"
  by (simp add: startedTwice_def startedOnce_def run_defs)

end
